theory Spec2Isabelle
  imports Main "HOL-Library.Word"
begin

section \<open>The hook-chain natives of reapi\<close>

text \<open>
  A shallow embedding of \<^verbatim>\<open>reapi/src/natives/natives_hookchains.cpp\<close>: the six
  natives a script calls (RegisterHookChain, EnableHookChain, DisableHookChain,
  SetHookChainReturn, GetHookChainReturn, SetHookChainArg) and
  RegisterNatives_HookChains. Every native is a function from the global state to its
  return cell and the new state; GetHookChainReturn, which can dereference a null
  pointer, returns an option of them. What the file only uses and does not define (the hook
  manager, the AMX helpers, the entity helpers, the allocator) is either a field of the
  record \<open>host\<close>, taken as a parameter, or a definition marked as modelled from the
  specification.
\<close>

subsection \<open>Machine types and constants\<close>

text \<open>
  The module is built for a 32-bit target: a \<^verbatim>\<open>cell\<close>, a \<^verbatim>\<open>size_t\<close> and a
  pointer are 32-bit words. \<^verbatim>\<open>AMX *\<close> is the identity of a script module.
  \<^verbatim>\<open>cell *params\<close> is read as the array it points to. \<^verbatim>\<open>TRUE\<close> and
  \<^verbatim>\<open>FALSE\<close> are the usual macros 1 and 0; the file does not define them.
\<close>

type_synonym cell = "32 word"
type_synonym size_t = "32 word"
type_synonym ptr = "32 word"
type_synonym AMX_ptr = nat
type_synonym params = "nat \<Rightarrow> cell"

definition TRUE :: cell where
  "TRUE = 1"

definition FALSE :: cell where
  "FALSE = 0"

definition nullptr :: ptr where
  "nullptr = 0"

text \<open>
  Modelled from the spec: \<^verbatim>\<open>enum AType\<close> is declared outside this file, and the
  enumerators are numbered in the order the specification lists the tags (section 3). A
  value of the type is kept as its integer, which is what
  \<^verbatim>\<open>params[arg_type] != retVal.type\<close> compares and what lets the \<^verbatim>\<open>default:\<close>
  branches be reached.
\<close>

type_synonym AType = cell

definition ATYPE_INTEGER :: AType where
  "ATYPE_INTEGER = 0"

definition ATYPE_FLOAT :: AType where
  "ATYPE_FLOAT = 1"

definition ATYPE_STRING :: AType where
  "ATYPE_STRING = 2"

definition ATYPE_CLASSPTR :: AType where
  "ATYPE_CLASSPTR = 3"

definition ATYPE_EDICT :: AType where
  "ATYPE_EDICT = 4"

definition ATYPE_EVARS :: AType where
  "ATYPE_EVARS = 5"

subsection \<open>Data\<close>

text \<open>
  The structures are declared outside this file; their fields are the ones the file
  reads and writes. \<^verbatim>\<open>retval_t\<close>: the flag \<open>set\<close>, the tag \<open>type\<close> and a union
  (the tagged union of section 3 of the specification) whose members \<^verbatim>\<open>_integer\<close>,
  \<^verbatim>\<open>_float\<close>, \<^verbatim>\<open>_string\<close>, \<^verbatim>\<open>_classptr\<close>, \<^verbatim>\<open>_edict\<close> and \<^verbatim>\<open>_pev\<close> share one
  word of storage, the field \<open>raw\<close>.
\<close>

record retval_t =
  set' :: bool
  type' :: AType
  raw :: "32 word"

text \<open>
  Modelled from the spec: the phase of the running dispatch and the scratch buffers
  handed out so far (\<open>temp_strings\<close>) are part of the invocation context as the
  specification describes it (section 3 and the glossary). The natives of this file
  never read the phase. The other fields of \<^verbatim>\<open>hookctx_t\<close> are the ones the file uses.
\<close>

datatype hc_phase = PrePhase | PostPhase

record hookctx_t =
  retVal :: retval_t
  args_count :: size_t
  args_ptr :: size_t
  args_type :: "nat \<Rightarrow> AType"
  temp_strings :: "ptr list"
  phase :: hc_phase

text \<open>
  Modelled from the spec: a registration (\<^verbatim>\<open>CAmxxHook\<close>) records the owning script
  module, the forward to call and the state the two natives set; a hook descriptor
  (\<^verbatim>\<open>hook_t\<close>) has, besides the three members RegisterHookChain reads, one list of
  registrations for each phase, in registration order (sections 3 and 4.1).
\<close>

datatype fwdstate = FSTATE_ENABLED | FSTATE_STOPPED

record CAmxxHook =
  m_amx :: AMX_ptr
  m_index :: cell
  m_state :: fwdstate

record hook_t =
  func_name :: string
  depend_name :: string
  checkRequirements :: bool
  pre :: "CAmxxHook list"
  post :: "CAmxxHook list"

text \<open>A script module: its data section, by AMX address, and its public functions.\<close>

record AMX =
  data :: "cell \<Rightarrow> cell"
  publics :: "string \<Rightarrow> cell option"

text \<open>
  One constructor for each call of \<^verbatim>\<open>MF_LogError\<close> in the file, with the arguments of
  its format string (the first is \<^verbatim>\<open>__FUNCTION__\<close>).
\<close>

datatype log_msg =
    Msg_function_doesnt_exist string cell
  | Msg_function_not_available string string string
  | Msg_public_not_found string string
  | Msg_register_forward_failed string
  | Msg_invalid_handle string
  | Msg_set_return_without_hook string
  | Msg_incompatible_type string
  | Msg_get_return_without_hook string
  | Msg_return_isnt_set string
  | Msg_cant_set_argument string cell size_t
  | Msg_invalid_argument_type string
  | Msg_need_rehlds_or_regamedll

datatype amx_error = AMX_ERR_NATIVE

datatype native_fn =
    Fn_RegisterHookChain
  | Fn_EnableHookChain
  | Fn_DisableHookChain
  | Fn_SetHookChainReturn
  | Fn_GetHookChainReturn
  | Fn_SetHookChainArg
  | Fn_lambda

type_synonym AMX_NATIVE_INFO = "string \<times> native_fn"

record api_cfg_t =
  hasReHLDS :: bool
  hasReGameDLL :: bool

text \<open>
  The global state. \<open>mem\<close> is native memory read one word at an address (the argument
  block lives there), \<open>cstr\<close> the text of the character array that starts at an
  address, \<open>allocated\<close> the arrays obtained from \<^verbatim>\<open>new char[]\<close> and not yet deleted.
\<close>

record state =
  g_hookCtx :: "hookctx_t option"
  g_hookManager :: "cell \<Rightarrow> hook_t option"
  api_cfg :: api_cfg_t
  HookChain_Natives :: "AMX_NATIVE_INFO list"
  amxx_natives :: "AMX_NATIVE_INFO list"
  amx_store :: "AMX_ptr \<Rightarrow> AMX"
  mem :: "ptr \<Rightarrow> cell"
  cstr :: "ptr \<Rightarrow> string"
  allocated :: "ptr set"
  error_log :: "(AMX_ptr \<times> amx_error \<times> log_msg) list"

text \<open>
  What the file calls and does not define, as parameters: the sentinel and the macro
  \<^verbatim>\<open>PARAMS_COUNT\<close>; the AMX string helpers; the entity helpers (\<open>classptr_pev p\<close> is
  the read \<^verbatim>\<open>p->pev\<close>, \<open>indexOfEdict\<close> and \<open>indexOfEdict_pev\<close> the two overloads
  used); \<^verbatim>\<open>hook->registerForward\<close>; the address \<^verbatim>\<open>new char[]\<close> returns, given the
  live arrays; the scratch buffer the arena hands out, given those handed out before;
  the packing of a registration's identity into a handle; \<^verbatim>\<open>fillNatives\<close>.
  Reads and writes through the helpers are total: the model does not say which
  addresses they accept. The one dereference the file itself makes of a stored pointer,
  \<^verbatim>\<open>retVal._classptr->pev\<close>, is modelled with its null case (see GetHookChainReturn).
\<close>

record host =
  INVALID_HOOKCHAIN :: cell
  PARAMS_COUNT :: "params \<Rightarrow> nat"
  getAmxString :: "(cell \<Rightarrow> cell) \<Rightarrow> cell \<Rightarrow> string"
  setAmxString :: "(cell \<Rightarrow> cell) \<Rightarrow> cell \<Rightarrow> string \<Rightarrow> cell \<Rightarrow> (cell \<Rightarrow> cell)"
  getAmxStringTemp :: "(cell \<Rightarrow> cell) \<Rightarrow> cell \<Rightarrow> nat \<Rightarrow> string"
  STRING_LEN :: nat
  getPrivate :: "cell \<Rightarrow> ptr"
  edictByIndexAmx :: "cell \<Rightarrow> ptr"
  PEV :: "cell \<Rightarrow> ptr"
  classptr_pev :: "ptr \<Rightarrow> ptr"
  indexOfEdict :: "ptr \<Rightarrow> cell"
  indexOfEdict_pev :: "ptr \<Rightarrow> cell"
  registerForward :: "cell \<Rightarrow> AMX_ptr \<Rightarrow> string \<Rightarrow> cell"
  operator_new :: "ptr set \<Rightarrow> ptr"
  arena_buffer :: "ptr list \<Rightarrow> ptr"
  handle_encode :: "cell \<Rightarrow> bool \<Rightarrow> nat \<Rightarrow> cell"
  handle_decode :: "cell \<Rightarrow> (cell \<times> bool \<times> nat) option"
  fillNatives :: "AMX_NATIVE_INFO list \<Rightarrow> native_fn \<Rightarrow> AMX_NATIVE_INFO list"

subsection \<open>Helpers used by the natives\<close>

definition MF_LogError :: "AMX_ptr \<Rightarrow> amx_error \<Rightarrow> log_msg \<Rightarrow> state \<Rightarrow> state" where
  "MF_LogError amx err msg st = st\<lparr>error_log := error_log st @ [(amx, err, msg)]\<rparr>"

text \<open>
  \<^verbatim>\<open>getAmxAddr(amx, a)\<close> points at the cell of the module's data section at the AMX
  address \<open>a\<close>; \<open>deref_amx\<close> is the read through that pointer.
\<close>

definition deref_amx :: "state \<Rightarrow> AMX_ptr \<Rightarrow> cell \<Rightarrow> cell" where
  "deref_amx st amx a = data (amx_store st amx) a"

text \<open>\<^verbatim>\<open>amx_FindPublic\<close>: \<open>None\<close> stands for every result other than AMX_ERR_NONE.\<close>

definition amx_FindPublic :: "state \<Rightarrow> AMX_ptr \<Rightarrow> string \<Rightarrow> cell option" where
  "amx_FindPublic st amx funcname = publics (amx_store st amx) funcname"

definition getHook :: "state \<Rightarrow> cell \<Rightarrow> hook_t option" where
  "getHook st func = g_hookManager st func"

definition handlers :: "hook_t \<Rightarrow> bool \<Rightarrow> CAmxxHook list" where
  "handlers hook is_post = (if is_post then post hook else pre hook)"

text \<open>
  Modelled from the spec: \<^verbatim>\<open>CHookManager::getAmxxHook\<close> is not in the sources. A handle
  encodes (function id, phase, index in the phase's list); the reserved sentinel and a
  handle that names no registration give \<^verbatim>\<open>nullptr\<close>, here \<open>None\<close>. The result
  is the place of the registration the handle names.
\<close>

definition getAmxxHook :: "host \<Rightarrow> state \<Rightarrow> cell \<Rightarrow> (cell \<times> bool \<times> nat) option" where
  "getAmxxHook h st handle =
     (if handle = INVALID_HOOKCHAIN h then None
      else case handle_decode h handle of
        None \<Rightarrow> None
      | Some (func, is_post, i) \<Rightarrow>
          (case g_hookManager st func of
             None \<Rightarrow> None
           | Some hook \<Rightarrow>
               if i < length (handlers hook is_post) then Some (func, is_post, i) else None))"

text \<open>
  Modelled from the spec: \<^verbatim>\<open>CAmxxHook::SetState\<close> is not in the sources. It writes
  the state of the registration and nothing else (section 4.2: disabling does not remove
  the registration or alter ordering).
\<close>

definition SetState :: "cell \<times> bool \<times> nat \<Rightarrow> fwdstate \<Rightarrow> state \<Rightarrow> state" where
  "SetState loc s st =
     (case loc of (func, is_post, i) \<Rightarrow>
        (case g_hookManager st func of
           None \<Rightarrow> st
         | Some hook \<Rightarrow>
             st\<lparr>g_hookManager := (g_hookManager st)(func :=
                  Some (if is_post
                        then hook\<lparr>post := (post hook)[i := (post hook ! i)\<lparr>m_state := s\<rparr>]\<rparr>
                        else hook\<lparr>pre := (pre hook)[i := (pre hook ! i)\<lparr>m_state := s\<rparr>]\<rparr>))\<rparr>))"

text \<open>
  Modelled from the spec: \<^verbatim>\<open>CHookManager::addHandler\<close> is not in the sources. The
  handler is appended to the list of its phase and the handle of its place is returned
  (section 4.1); a new registration is enabled. RegisterHookChain calls it only with a
  function id that \<open>getHook\<close> has found.
\<close>

definition addHandler :: "host \<Rightarrow> AMX_ptr \<Rightarrow> cell \<Rightarrow> cell \<Rightarrow> bool \<Rightarrow> state \<Rightarrow> cell \<times> state" where
  "addHandler h amx func fwid is_post st =
     (case g_hookManager st func of
        None \<Rightarrow> (INVALID_HOOKCHAIN h, st)
      | Some hook \<Rightarrow>
          let reg = \<lparr>m_amx = amx, m_index = fwid, m_state = FSTATE_ENABLED\<rparr>;
              i = length (handlers hook is_post);
              hook' = (if is_post then hook\<lparr>post := post hook @ [reg]\<rparr>
                       else hook\<lparr>pre := pre hook @ [reg]\<rparr>)
          in (handle_encode h func is_post i,
              st\<lparr>g_hookManager := (g_hookManager st)(func := Some hook')\<rparr>))"

text \<open>
  Modelled from the spec: \<^verbatim>\<open>hookctx_t::get_temp_string\<close> is not in the sources. It
  hands out a scratch buffer of the invocation's arena (section 2, Temporary String
  Arena) and records it in the context.
\<close>

definition get_temp_string :: "host \<Rightarrow> hookctx_t \<Rightarrow> ptr \<times> hookctx_t" where
  "get_temp_string h ctx =
     (let buf = arena_buffer h (temp_strings ctx)
      in (buf, ctx\<lparr>temp_strings := temp_strings ctx @ [buf]\<rparr>))"

subsection \<open>RegisterHookChain\<close>

definition RegisterHookChain :: "host \<Rightarrow> AMX_ptr \<Rightarrow> params \<Rightarrow> state \<Rightarrow> cell \<times> state" where
  "RegisterHookChain h amx params st =
     (let arg_func = 1; arg_handler = 2; arg_post = 3;
          func = params arg_func;
          post = params arg_post
      in case getHook st func of
           None \<Rightarrow>
             (INVALID_HOOKCHAIN h,
              MF_LogError amx AMX_ERR_NATIVE
                (Msg_function_doesnt_exist ''RegisterHookChain'' func) st)
         | Some hook \<Rightarrow>
             if \<not> checkRequirements hook then
               (INVALID_HOOKCHAIN h,
                MF_LogError amx AMX_ERR_NATIVE
                  (Msg_function_not_available ''RegisterHookChain''
                     (func_name hook) (depend_name hook)) st)
             else
               let funcname = getAmxString h (data (amx_store st amx)) (params arg_handler)
               in (case amx_FindPublic st amx funcname of
                     None \<Rightarrow>
                       (INVALID_HOOKCHAIN h,
                        MF_LogError amx AMX_ERR_NATIVE
                          (Msg_public_not_found ''RegisterHookChain'' funcname) st)
                   | Some funcid \<Rightarrow>
                       let fwid = registerForward h func amx funcname
                       in if fwid = - 1 then
                            (INVALID_HOOKCHAIN h,
                             MF_LogError amx AMX_ERR_NATIVE
                               (Msg_register_forward_failed ''RegisterHookChain'') st)
                          else addHandler h amx func fwid (post \<noteq> 0) st))"

subsection \<open>EnableHookChain and DisableHookChain\<close>

definition EnableHookChain :: "host \<Rightarrow> AMX_ptr \<Rightarrow> params \<Rightarrow> state \<Rightarrow> cell \<times> state" where
  "EnableHookChain h amx params st =
     (let arg_handle_hook = 1
      in case getAmxxHook h st (params arg_handle_hook) of
           None \<Rightarrow>
             (FALSE,
              MF_LogError amx AMX_ERR_NATIVE (Msg_invalid_handle ''EnableHookChain'') st)
         | Some hook \<Rightarrow> (TRUE, SetState hook FSTATE_ENABLED st))"

definition DisableHookChain :: "host \<Rightarrow> AMX_ptr \<Rightarrow> params \<Rightarrow> state \<Rightarrow> cell \<times> state" where
  "DisableHookChain h amx params st =
     (let arg_handle_hook = 1
      in case getAmxxHook h st (params arg_handle_hook) of
           None \<Rightarrow>
             (FALSE,
              MF_LogError amx AMX_ERR_NATIVE (Msg_invalid_handle ''DisableHookChain'') st)
         | Some hook \<Rightarrow> (TRUE, SetState hook FSTATE_STOPPED st))"

subsection \<open>SetHookChainReturn\<close>

text \<open>
  The \<^verbatim>\<open>switch\<close> on the tag: \<open>Some\<close> of the state and the cell as the case leaves
  them at its \<^verbatim>\<open>break\<close>, \<open>None\<close> for \<^verbatim>\<open>default: return FALSE\<close>. In the STRING
  case the old array is deleted when the pointer is not null, then a new array is
  allocated and the text copied into it.
\<close>

definition SetHookChainReturn_switch ::
  "host \<Rightarrow> AMX_ptr \<Rightarrow> cell \<Rightarrow> state \<Rightarrow> retval_t \<Rightarrow> (state \<times> retval_t) option" where
  "SetHookChainReturn_switch h amx srcAddr st rv =
     (if type' rv = ATYPE_INTEGER \<or> type' rv = ATYPE_FLOAT then
        Some (st, rv\<lparr>raw := deref_amx st amx srcAddr\<rparr>)
      else if type' rv = ATYPE_STRING then
        let live = (if raw rv \<noteq> nullptr then allocated st - {raw rv} else allocated st);
            dest = getAmxString h (data (amx_store st amx)) srcAddr;
            p = operator_new h live
        in Some (st\<lparr>allocated := insert p live, cstr := (cstr st)(p := dest)\<rparr>,
                 rv\<lparr>raw := p\<rparr>)
      else if type' rv = ATYPE_CLASSPTR then
        Some (st, rv\<lparr>raw := getPrivate h (deref_amx st amx srcAddr)\<rparr>)
      else if type' rv = ATYPE_EDICT then
        Some (st, rv\<lparr>raw := edictByIndexAmx h (deref_amx st amx srcAddr)\<rparr>)
      else if type' rv = ATYPE_EVARS then
        Some (st, rv\<lparr>raw := PEV h (deref_amx st amx srcAddr)\<rparr>)
      else None)"

definition SetHookChainReturn :: "host \<Rightarrow> AMX_ptr \<Rightarrow> params \<Rightarrow> state \<Rightarrow> cell \<times> state" where
  "SetHookChainReturn h amx params st =
     (case g_hookCtx st of
        None \<Rightarrow>
          (FALSE,
           MF_LogError amx AMX_ERR_NATIVE
             (Msg_set_return_without_hook ''SetHookChainReturn'') st)
      | Some ctx \<Rightarrow>
          let arg_type = 1; arg_value = 2;
              rv = retVal ctx
          in if params arg_type \<noteq> type' rv then
               (FALSE,
                MF_LogError amx AMX_ERR_NATIVE
                  (Msg_incompatible_type ''SetHookChainReturn'') st)
             else
               let srcAddr = params arg_value
               in (case SetHookChainReturn_switch h amx srcAddr st rv of
                     None \<Rightarrow> (FALSE, st)
                   | Some (st1, rv1) \<Rightarrow>
                       (TRUE, st1\<lparr>g_hookCtx := Some (ctx\<lparr>retVal := rv1\<lparr>set' := True\<rparr>\<rparr>)\<rparr>)))"

subsection \<open>GetHookChainReturn\<close>

text \<open>
  The result is \<open>None\<close> where the native does not return: in the CLASSPTR case
  \<^verbatim>\<open>retVal._classptr->pev\<close> is evaluated with no test, and with a null
  \<^verbatim>\<open>_classptr\<close> the dereference kills the process. With a pointer that is not null
  the read is the host's \<open>classptr_pev\<close>.
\<close>

definition GetHookChainReturn ::
  "host \<Rightarrow> AMX_ptr \<Rightarrow> params \<Rightarrow> state \<Rightarrow> (cell \<times> state) option" where
  "GetHookChainReturn h amx params st =
     (case g_hookCtx st of
        None \<Rightarrow>
          Some (FALSE,
                MF_LogError amx AMX_ERR_NATIVE
                  (Msg_get_return_without_hook ''GetHookChainReturn'') st)
      | Some ctx \<Rightarrow>
          let arg_value = 1; arg_maxlen = 2;
              rv = retVal ctx
          in if \<not> set' rv then
               Some (FALSE,
                     MF_LogError amx AMX_ERR_NATIVE
                       (Msg_return_isnt_set ''GetHookChainReturn'') st)
             else
               let dstAddr = params arg_value
               in if type' rv = ATYPE_INTEGER \<or> type' rv = ATYPE_FLOAT then Some (raw rv, st)
                  else if type' rv = ATYPE_STRING then
                    if PARAMS_COUNT h params \<noteq> 2 then Some (FALSE, st)
                    else
                      Some (TRUE,
                            st\<lparr>amx_store := (amx_store st)(amx :=
                                 (amx_store st amx)\<lparr>data :=
                                    setAmxString h (data (amx_store st amx)) dstAddr
                                      (cstr st (raw rv)) (params arg_maxlen)\<rparr>)\<rparr>)
                  else if type' rv = ATYPE_CLASSPTR then
                    if raw rv = nullptr then None
                    else Some (indexOfEdict_pev h (classptr_pev h (raw rv)), st)
                  else if type' rv = ATYPE_EDICT then Some (indexOfEdict h (raw rv), st)
                  else if type' rv = ATYPE_EVARS then Some (indexOfEdict_pev h (raw rv), st)
                  else Some (FALSE, st))"

subsection \<open>SetHookChainArg\<close>

text \<open>
  \<^verbatim>\<open>size_t number = params[arg_number] - 1\<close> wraps to the largest word for the
  number 0, and \<^verbatim>\<open>number >= args_count\<close> compares unsigned words.
  \<^verbatim>\<open>sizeof(int)\<close> is 4. A tag outside the six enumerators writes nothing and the
  native still returns TRUE (the \<^verbatim>\<open>switch\<close> has no default).
\<close>

definition SetHookChainArg :: "host \<Rightarrow> AMX_ptr \<Rightarrow> params \<Rightarrow> state \<Rightarrow> cell \<times> state" where
  "SetHookChainArg h amx params st =
     (case g_hookCtx st of
        None \<Rightarrow>
          (FALSE,
           MF_LogError amx AMX_ERR_NATIVE
             (Msg_get_return_without_hook ''SetHookChainArg'') st)
      | Some ctx \<Rightarrow>
          let arg_number = 1; arg_type = 2; arg_value = 3;
              number = params arg_number - 1
          in if number \<ge> args_count ctx then
               (FALSE,
                MF_LogError amx AMX_ERR_NATIVE
                  (Msg_cant_set_argument ''SetHookChainArg'' (params arg_number)
                     (args_count ctx)) st)
             else
               let type = args_type ctx (unat number)
               in if params arg_type \<noteq> type then
                    (FALSE,
                     MF_LogError amx AMX_ERR_NATIVE
                       (Msg_invalid_argument_type ''SetHookChainArg'') st)
                  else
                    let srcAddr = params arg_value;
                        destAddr = args_ptr ctx + number * 4
                    in if type = ATYPE_INTEGER \<or> type = ATYPE_FLOAT then
                         (TRUE, st\<lparr>mem := (mem st)(destAddr := deref_amx st amx srcAddr)\<rparr>)
                       else if type = ATYPE_STRING then
                         (case get_temp_string h ctx of (buf, ctx1) \<Rightarrow>
                            (TRUE,
                             st\<lparr>g_hookCtx := Some ctx1,
                                cstr := (cstr st)(buf :=
                                  getAmxStringTemp h (data (amx_store st amx)) srcAddr
                                    (STRING_LEN h)),
                                mem := (mem st)(destAddr := buf)\<rparr>))
                       else if type = ATYPE_CLASSPTR then
                         (TRUE,
                          st\<lparr>mem := (mem st)(destAddr := getPrivate h (deref_amx st amx srcAddr))\<rparr>)
                       else if type = ATYPE_EDICT then
                         (TRUE,
                          st\<lparr>mem := (mem st)(destAddr :=
                               edictByIndexAmx h (deref_amx st amx srcAddr))\<rparr>)
                       else if type = ATYPE_EVARS then
                         (TRUE, st\<lparr>mem := (mem st)(destAddr := PEV h (deref_amx st amx srcAddr))\<rparr>)
                       else (TRUE, st))"

subsection \<open>The table of natives and its registration\<close>

definition HookChain_Natives_init :: "AMX_NATIVE_INFO list" where
  "HookChain_Natives_init =
     [(''RegisterHookChain'', Fn_RegisterHookChain),
      (''EnableHookChain'', Fn_EnableHookChain),
      (''DisableHookChain'', Fn_DisableHookChain),
      (''SetHookChainReturn'', Fn_SetHookChainReturn),
      (''GetHookChainReturn'', Fn_GetHookChainReturn),
      (''SetHookChainArg'', Fn_SetHookChainArg)]"

text \<open>
  Calling through a function pointer of the table. \<open>Fn_lambda\<close> is the lambda of
  RegisterNatives_HookChains. \<open>None\<close> is a call that does not return.
\<close>

fun call_native ::
  "host \<Rightarrow> native_fn \<Rightarrow> AMX_ptr \<Rightarrow> params \<Rightarrow> state \<Rightarrow> (cell \<times> state) option" where
  "call_native h Fn_RegisterHookChain amx params st = Some (RegisterHookChain h amx params st)"
| "call_native h Fn_EnableHookChain amx params st = Some (EnableHookChain h amx params st)"
| "call_native h Fn_DisableHookChain amx params st = Some (DisableHookChain h amx params st)"
| "call_native h Fn_SetHookChainReturn amx params st = Some (SetHookChainReturn h amx params st)"
| "call_native h Fn_GetHookChainReturn amx params st = GetHookChainReturn h amx params st"
| "call_native h Fn_SetHookChainArg amx params st = Some (SetHookChainArg h amx params st)"
| "call_native h Fn_lambda amx params st =
     Some (FALSE, MF_LogError amx AMX_ERR_NATIVE Msg_need_rehlds_or_regamedll st)"

definition AddNatives :: "AMX_NATIVE_INFO list \<Rightarrow> state \<Rightarrow> state" where
  "AddNatives natives st = st\<lparr>amxx_natives := amxx_natives st @ natives\<rparr>"

definition RegisterNatives_HookChains :: "host \<Rightarrow> state \<Rightarrow> state" where
  "RegisterNatives_HookChains h st =
     (let st1 = (if \<not> hasReHLDS (api_cfg st) \<and> \<not> hasReGameDLL (api_cfg st)
                 then st\<lparr>HookChain_Natives := fillNatives h (HookChain_Natives st) Fn_lambda\<rparr>
                 else st)
      in AddNatives (HookChain_Natives st1) st1)"

subsection \<open>Observations used to state the theorems\<close>

text \<open>
  The registration at a place (function id, phase, index) of the hook manager, if there
  is one. Two states with the same \<open>registration\<close> have the same handlers in the same
  order in every chain.
\<close>

definition registration :: "state \<Rightarrow> cell \<times> bool \<times> nat \<Rightarrow> CAmxxHook option" where
  "registration st loc =
     (case loc of (func, is_post, i) \<Rightarrow>
        (case g_hookManager st func of
           None \<Rightarrow> None
         | Some hook \<Rightarrow>
             if i < length (handlers hook is_post) then Some (handlers hook is_post ! i)
             else None))"

text \<open>The array a STRING cell owns: none while its pointer is null.\<close>

definition owned_string :: "retval_t \<Rightarrow> ptr set" where
  "owned_string rv = (if raw rv \<noteq> nullptr then {raw rv} else {})"

text \<open>
  \<^verbatim>\<open>new char[len + 1]\<close> returned normally in the STRING case of SetHookChainReturn
  called in this state: the address is not null and is not one of the arrays live after
  the \<^verbatim>\<open>delete[]\<close>.
\<close>

definition new_returns_fresh :: "host \<Rightarrow> state \<Rightarrow> bool" where
  "new_returns_fresh h st =
     (case g_hookCtx st of
        None \<Rightarrow> False
      | Some ctx \<Rightarrow>
          operator_new h (allocated st - owned_string (retVal ctx)) \<noteq> nullptr \<and>
          operator_new h (allocated st - owned_string (retVal ctx))
            \<notin> allocated st - owned_string (retVal ctx))"

text \<open>A script calling SetHookChainReturn several times in a row, and what it means
  that every one of the calls is a successful STRING-tagged one.\<close>

fun SetHookChainReturn_seq :: "host \<Rightarrow> AMX_ptr \<Rightarrow> params list \<Rightarrow> state \<Rightarrow> state" where
  "SetHookChainReturn_seq h amx [] st = st"
| "SetHookChainReturn_seq h amx (p # ps) st =
     SetHookChainReturn_seq h amx ps (snd (SetHookChainReturn h amx p st))"

fun string_sets_succeed :: "host \<Rightarrow> AMX_ptr \<Rightarrow> params list \<Rightarrow> state \<Rightarrow> bool" where
  "string_sets_succeed h amx [] st = True"
| "string_sets_succeed h amx (p # ps) st =
     (p 1 = ATYPE_STRING \<and> new_returns_fresh h st \<and>
      fst (SetHookChainReturn h amx p st) = TRUE \<and>
      string_sets_succeed h amx ps (snd (SetHookChainReturn h amx p st)))"

subsection \<open>Concrete hosts and states\<close>

text \<open>
  A host, a script module and some states on which the theorems are run. The handle of
  the host packs (function id, phase, index) as \<open>256 * id + 128 * phase + index + 1\<close>;
  its allocator returns the first of the addresses 16 and 32 that is free; its strings
  are ''cb'' at AMX address 200 and ''hello'' at 300.
\<close>

definition params_of :: "cell list \<Rightarrow> params" where
  "params_of xs = (\<lambda>i. if i < length xs then xs ! i else 0)"

definition host0 :: host where
  "host0 =
     \<lparr>INVALID_HOOKCHAIN = 0,
      PARAMS_COUNT = (\<lambda>p. unat (p 0) div 4),
      getAmxString = (\<lambda>d a. if a = 200 then ''cb'' else if a = 300 then ''hello'' else []),
      setAmxString = (\<lambda>d a s n. d(a := of_nat (length s))),
      getAmxStringTemp =
        (\<lambda>d a n. take n (if a = 200 then ''cb'' else if a = 300 then ''hello'' else [])),
      STRING_LEN = 128,
      getPrivate = (\<lambda>i. 4 * i + 1024),
      edictByIndexAmx = (\<lambda>i. 4 * i + 2048),
      PEV = (\<lambda>i. 4 * i + 3072),
      classptr_pev = (\<lambda>p. p + 2048),
      indexOfEdict = (\<lambda>p. (p - 2048) div 4),
      indexOfEdict_pev = (\<lambda>p. (p - 3072) div 4),
      registerForward = (\<lambda>func amx name. if name = ''cb'' then 5 else - 1),
      operator_new = (\<lambda>live. if 16 \<in> live then 32 else 16),
      arena_buffer = (\<lambda>used. 512 + 128 * of_nat (length used)),
      handle_encode = (\<lambda>func is_post i. 256 * func + (if is_post then 128 else 0) + of_nat i + 1),
      handle_decode =
        (\<lambda>c. if c = 0 then None
             else Some ((c - 1) div 256, 128 \<le> (c - 1) mod 256, unat ((c - 1) mod 128))),
      fillNatives = (\<lambda>table with. map (\<lambda>(name, func). (name, with)) table)\<rparr>"

definition amx0 :: AMX where
  "amx0 =
     \<lparr>data = (\<lambda>a. if a = 100 then 7 else 0),
      publics = (\<lambda>name. if name = ''cb'' \<or> name = ''hello'' then Some 2 else None)\<rparr>"

definition ctx0 :: hookctx_t where
  "ctx0 =
     \<lparr>retVal = \<lparr>set' = False, type' = ATYPE_INTEGER, raw = 0\<rparr>,
      args_count = 2,
      args_ptr = 4096,
      args_type = (\<lambda>i. ATYPE_INTEGER),
      temp_strings = [],
      phase = PrePhase\<rparr>"

definition hook0 :: hook_t where
  "hook0 =
     \<lparr>func_name = ''F'', depend_name = ''ReGameDLL'', checkRequirements = True,
      pre = [\<lparr>m_amx = 0, m_index = 4, m_state = FSTATE_ENABLED\<rparr>],
      post = []\<rparr>"

definition st_idle :: state where
  "st_idle =
     \<lparr>g_hookCtx = None,
      g_hookManager =
        (\<lambda>func. if func = 3 then Some hook0
                else if func = 4 then Some (hook0\<lparr>checkRequirements := False, pre := []\<rparr>)
                else None),
      api_cfg = \<lparr>hasReHLDS = False, hasReGameDLL = False\<rparr>,
      HookChain_Natives = HookChain_Natives_init,
      amxx_natives = [],
      amx_store = (\<lambda>amx. amx0),
      mem = (\<lambda>a. 3),
      cstr = (\<lambda>a. []),
      allocated = {},
      error_log = []\<rparr>"

definition st_active :: state where
  "st_active = st_idle\<lparr>g_hookCtx := Some ctx0\<rparr>"

text \<open>The same invocation in its post phase.\<close>

definition st_post :: state where
  "st_post = st_idle\<lparr>g_hookCtx := Some (ctx0\<lparr>phase := PostPhase\<rparr>)\<rparr>"

text \<open>
  An invocation whose return cell is set, with a given tag and word; the array at
  address 16 is live and holds ''hello''.
\<close>

definition st_ret :: "AType \<Rightarrow> 32 word \<Rightarrow> state" where
  "st_ret t w =
     st_idle\<lparr>g_hookCtx := Some (ctx0\<lparr>retVal := \<lparr>set' = True, type' = t, raw = w\<rparr>\<rparr>),
             cstr := (cstr st_idle)(16 := ''hello''),
             allocated := {16}\<rparr>"

text \<open>
  An invocation whose return cell is a STRING cell not yet written (null pointer), in a
  process where one array, at address 16, is already live.
\<close>

definition ctx_str :: hookctx_t where
  "ctx_str = ctx0\<lparr>retVal := \<lparr>set' = False, type' = ATYPE_STRING, raw = nullptr\<rparr>\<rparr>"

definition st_str :: state where
  "st_str = st_idle\<lparr>g_hookCtx := Some ctx_str, allocated := {16}\<rparr>"

text \<open>
  A host on which entity 7 has no private data (\<^verbatim>\<open>getPrivate\<close> resolves it to the
  null pointer), and an invocation whose return cell is a CLASSPTR cell not yet written.
\<close>

definition host_np :: host where
  "host_np = host0\<lparr>getPrivate := (\<lambda>i. if i = 7 then nullptr else 4 * i + 1024)\<rparr>"

definition ctx_cls :: hookctx_t where
  "ctx_cls = ctx0\<lparr>retVal := \<lparr>set' = False, type' = ATYPE_CLASSPTR, raw = nullptr\<rparr>\<rparr>"

definition st_cls :: state where
  "st_cls = st_idle\<lparr>g_hookCtx := Some ctx_cls\<rparr>"

section \<open>Theorems\<close>

subsection \<open>The return cell\<close>

text \<open>
  Claim C3. SetHookChainReturn fails, reports an error and leaves the return cell as it
  was (value, tag and flag) when the tag passed does not match the cell's tag or when no
  invocation is active: the state it returns is the state it got with one more entry in
  the error log. Whenever it does not return TRUE it returns FALSE with the context
  untouched, and when it returns TRUE the cell is marked set.
\<close>

theorem SetHookChainReturn_failure_keeps_cell:
  "(g_hookCtx st = None \<longrightarrow>
      SetHookChainReturn h amx params st =
        (FALSE, st\<lparr>error_log := error_log st @
           [(amx, AMX_ERR_NATIVE, Msg_set_return_without_hook ''SetHookChainReturn'')]\<rparr>)) \<and>
   (g_hookCtx st = Some ctx \<and> params 1 \<noteq> type' (retVal ctx) \<longrightarrow>
      SetHookChainReturn h amx params st =
        (FALSE, st\<lparr>error_log := error_log st @
           [(amx, AMX_ERR_NATIVE, Msg_incompatible_type ''SetHookChainReturn'')]\<rparr>)) \<and>
   (fst (SetHookChainReturn h amx params st) \<noteq> TRUE \<longrightarrow>
      fst (SetHookChainReturn h amx params st) = FALSE \<and>
      g_hookCtx (snd (SetHookChainReturn h amx params st)) = g_hookCtx st) \<and>
   (fst (SetHookChainReturn h amx params st) = TRUE \<longrightarrow>
      (\<exists>ctx'. g_hookCtx (snd (SetHookChainReturn h amx params st)) = Some ctx' \<and>
          set' (retVal ctx')))"
  by (auto simp: SetHookChainReturn_def MF_LogError_def Let_def TRUE_def FALSE_def
      split: option.splits)

theorem SetHookChainReturn_failure_keeps_cell_witness:
  "g_hookCtx st_idle = None \<and>
   SetHookChainReturn host0 0 (params_of [8, ATYPE_INTEGER, 100]) st_idle =
     (FALSE, st_idle\<lparr>error_log := error_log st_idle @
        [(0, AMX_ERR_NATIVE, Msg_set_return_without_hook ''SetHookChainReturn'')]\<rparr>) \<and>
   g_hookCtx st_active = Some ctx0 \<and>
   params_of [8, ATYPE_FLOAT, 100] 1 \<noteq> type' (retVal ctx0) \<and>
   SetHookChainReturn host0 0 (params_of [8, ATYPE_FLOAT, 100]) st_active =
     (FALSE, st_active\<lparr>error_log := error_log st_active @
        [(0, AMX_ERR_NATIVE, Msg_incompatible_type ''SetHookChainReturn'')]\<rparr>) \<and>
   g_hookCtx (snd (SetHookChainReturn host0 0 (params_of [8, ATYPE_FLOAT, 100]) st_active)) =
     g_hookCtx st_active \<and>
   fst (SetHookChainReturn host0 0 (params_of [8, ATYPE_INTEGER, 100]) st_active) = TRUE \<and>
   (\<exists>ctx'. g_hookCtx (snd (SetHookChainReturn host0 0 (params_of [8, ATYPE_INTEGER, 100])
              st_active)) = Some ctx' \<and> set' (retVal ctx'))"
proof -
  have idle: "g_hookCtx st_idle = None"
    by (simp add: st_idle_def)
  have active: "g_hookCtx st_active = Some ctx0"
    by (simp add: st_active_def)
  have mismatch: "params_of [8, ATYPE_FLOAT, 100] 1 \<noteq> type' (retVal ctx0)"
    by (simp add: params_of_def ctx0_def ATYPE_FLOAT_def ATYPE_INTEGER_def)
  have failed:
    "fst (SetHookChainReturn host0 0 (params_of [8, ATYPE_FLOAT, 100]) st_active) \<noteq> TRUE"
    using SetHookChainReturn_failure_keeps_cell
            [of st_active host0 0 "params_of [8, ATYPE_FLOAT, 100]" ctx0] active mismatch
    by (simp add: TRUE_def FALSE_def)
  have ok: "fst (SetHookChainReturn host0 0 (params_of [8, ATYPE_INTEGER, 100]) st_active) = TRUE"
    by (simp add: SetHookChainReturn_def SetHookChainReturn_switch_def st_active_def ctx0_def
        params_of_def Let_def)
  show ?thesis
    using SetHookChainReturn_failure_keeps_cell
            [of st_idle host0 0 "params_of [8, ATYPE_INTEGER, 100]" ctx0]
      SetHookChainReturn_failure_keeps_cell
            [of st_active host0 0 "params_of [8, ATYPE_FLOAT, 100]" ctx0]
      SetHookChainReturn_failure_keeps_cell
            [of st_active host0 0 "params_of [8, ATYPE_INTEGER, 100]" ctx0]
      idle active mismatch failed ok
    by blast
qed

text \<open>
  Claim C2. In an active invocation whose return cell is tagged INTEGER or FLOAT,
  SetHookChainReturn with that tag returns TRUE, stores the word read at the address
  passed and marks the cell set, changing nothing else; GetHookChainReturn called next
  (by any module, with any parameters) returns that same word: no conversion takes
  place for either tag.
\<close>

theorem SetHookChainReturn_GetHookChainReturn_word:
  assumes "g_hookCtx st = Some ctx"
    and "type' (retVal ctx) = ATYPE_INTEGER \<or> type' (retVal ctx) = ATYPE_FLOAT"
    and "params 1 = type' (retVal ctx)"
  shows "SetHookChainReturn h amx params st =
           (TRUE, st\<lparr>g_hookCtx := Some (ctx\<lparr>retVal :=
               (retVal ctx)\<lparr>raw := deref_amx st amx (params 2), set' := True\<rparr>\<rparr>)\<rparr>) \<and>
         GetHookChainReturn h amx' params' (snd (SetHookChainReturn h amx params st)) =
           Some (deref_amx st amx (params 2), snd (SetHookChainReturn h amx params st))"
  using assms
  by (auto simp: SetHookChainReturn_def SetHookChainReturn_switch_def GetHookChainReturn_def
      Let_def)

theorem SetHookChainReturn_GetHookChainReturn_word_witness:
  "g_hookCtx st_active = Some ctx0 \<and>
   type' (retVal ctx0) = ATYPE_INTEGER \<and>
   params_of [8, ATYPE_INTEGER, 100] 1 = type' (retVal ctx0) \<and>
   deref_amx st_active 0 (params_of [8, ATYPE_INTEGER, 100] 2) = 7 \<and>
   fst (SetHookChainReturn host0 0 (params_of [8, ATYPE_INTEGER, 100]) st_active) = TRUE \<and>
   map_option fst (GetHookChainReturn host0 0 (params_of [0])
          (snd (SetHookChainReturn host0 0 (params_of [8, ATYPE_INTEGER, 100]) st_active))) =
     Some 7"
proof -
  have active: "g_hookCtx st_active = Some ctx0"
    by (simp add: st_active_def)
  have tag: "type' (retVal ctx0) = ATYPE_INTEGER"
    by (simp add: ctx0_def)
  have same: "params_of [8, ATYPE_INTEGER, 100] 1 = type' (retVal ctx0)"
    by (simp add: params_of_def ctx0_def)
  have word: "deref_amx st_active 0 (params_of [8, ATYPE_INTEGER, 100] 2) = 7"
    by (simp add: deref_amx_def st_active_def st_idle_def amx0_def params_of_def)
  have either: "type' (retVal ctx0) = ATYPE_INTEGER \<or> type' (retVal ctx0) = ATYPE_FLOAT"
    using tag by simp
  note both = SetHookChainReturn_GetHookChainReturn_word
         [where st = st_active and ctx = ctx0 and params = "params_of [8, ATYPE_INTEGER, 100]"
            and h = host0 and amx = 0 and amx' = 0 and params' = "params_of [0]",
          OF active either same]
  have stored: "fst (SetHookChainReturn host0 0 (params_of [8, ATYPE_INTEGER, 100]) st_active) = TRUE"
    using both [THEN conjunct1] by simp
  have read: "map_option fst (GetHookChainReturn host0 0 (params_of [0])
          (snd (SetHookChainReturn host0 0 (params_of [8, ATYPE_INTEGER, 100]) st_active))) =
      Some 7"
    using both [THEN conjunct2] word by simp
  show ?thesis
    using active tag same word stored read by blast
qed

subsection \<open>The argument block\<close>

text \<open>
  The test \<^verbatim>\<open>number >= args_count\<close> on \<^verbatim>\<open>number = params[arg_number] - 1\<close>, read
  on the number the script passed: it fails exactly when that number, as an unsigned
  word, is not one of 1, ..., args_count.
\<close>

lemma number_out_of_range_iff:
  fixes p n :: "32 word"
  shows "(n \<le> p - 1) \<longleftrightarrow> unat p \<notin> {1..unat n}"
proof (cases "p = 0")
  case True
  then show ?thesis by simp
next
  case False
  then have pos: "unat p \<noteq> 0"
    by (simp add: unat_eq_0)
  from False have "unat (p - 1) = unat p - 1"
    by (simp add: unat_minus_one)
  with pos show ?thesis
    by (auto simp: word_le_nat_alt)
qed

lemma number_index:
  fixes p :: "32 word"
  assumes "unat p \<in> {1..n}"
  shows "unat (p - 1) = unat p - 1"
proof -
  from assms have "p \<noteq> 0" by auto
  then show ?thesis by (simp add: unat_minus_one)
qed

text \<open>
  Claim C1 as stated does not hold: the number a script passes is 1-based. With two
  arguments the number 2 lies outside [0, 2), yet the call succeeds, reports nothing and
  writes the second slot of the block (address 4100, from 3 to 7).
\<close>

theorem SetHookChainArg_number_is_one_based:
  "g_hookCtx st_active = Some ctx0 \<and>
   args_count ctx0 = 2 \<and>
   params_of [12, 2, ATYPE_INTEGER, 100] 1 = 2 \<and>
   params_of [12, 2, ATYPE_INTEGER, 100] 2 = args_type ctx0 1 \<and>
   unat (params_of [12, 2, ATYPE_INTEGER, 100] 1) \<notin> {0..<unat (args_count ctx0)} \<and>
   fst (SetHookChainArg host0 0 (params_of [12, 2, ATYPE_INTEGER, 100]) st_active) = TRUE \<and>
   error_log (snd (SetHookChainArg host0 0 (params_of [12, 2, ATYPE_INTEGER, 100]) st_active)) = [] \<and>
   mem st_active 4100 = 3 \<and>
   mem (snd (SetHookChainArg host0 0 (params_of [12, 2, ATYPE_INTEGER, 100]) st_active)) 4100 = 7"
  by (simp add: SetHookChainArg_def st_active_def st_idle_def ctx0_def params_of_def Let_def
      deref_amx_def amx0_def ATYPE_INTEGER_def word_le_nat_alt)

text \<open>
  Claim C1, amended. SetHookChainArg fails, with the state it got plus one entry in the
  error log, when no invocation is active, when the number passed is not one of
  1, ..., args_count (that is, when number - 1 is outside [0, args_count)), and when
  the tag passed differs from the declared tag of that slot. Whenever it does not return
  TRUE it returns FALSE and the argument block, the character arrays and the context are
  as they were.
\<close>

theorem SetHookChainArg_failure_paths:
  "(g_hookCtx st = None \<longrightarrow>
      SetHookChainArg h amx params st =
        (FALSE, st\<lparr>error_log := error_log st @
           [(amx, AMX_ERR_NATIVE, Msg_get_return_without_hook ''SetHookChainArg'')]\<rparr>)) \<and>
   (g_hookCtx st = Some ctx \<and> unat (params 1) \<notin> {1..unat (args_count ctx)} \<longrightarrow>
      SetHookChainArg h amx params st =
        (FALSE, st\<lparr>error_log := error_log st @
           [(amx, AMX_ERR_NATIVE,
             Msg_cant_set_argument ''SetHookChainArg'' (params 1) (args_count ctx))]\<rparr>)) \<and>
   (g_hookCtx st = Some ctx \<and> unat (params 1) \<in> {1..unat (args_count ctx)} \<and>
    params 2 \<noteq> args_type ctx (unat (params 1) - 1) \<longrightarrow>
      SetHookChainArg h amx params st =
        (FALSE, st\<lparr>error_log := error_log st @
           [(amx, AMX_ERR_NATIVE, Msg_invalid_argument_type ''SetHookChainArg'')]\<rparr>)) \<and>
   (fst (SetHookChainArg h amx params st) \<noteq> TRUE \<longrightarrow>
      fst (SetHookChainArg h amx params st) = FALSE \<and>
      mem (snd (SetHookChainArg h amx params st)) = mem st \<and>
      cstr (snd (SetHookChainArg h amx params st)) = cstr st \<and>
      g_hookCtx (snd (SetHookChainArg h amx params st)) = g_hookCtx st)"
proof -
  have idle: "g_hookCtx st = None \<longrightarrow>
      SetHookChainArg h amx params st =
        (FALSE, st\<lparr>error_log := error_log st @
           [(amx, AMX_ERR_NATIVE, Msg_get_return_without_hook ''SetHookChainArg'')]\<rparr>)"
    by (simp add: SetHookChainArg_def MF_LogError_def)
  have range: "g_hookCtx st = Some ctx \<and> unat (params 1) \<notin> {1..unat (args_count ctx)} \<longrightarrow>
      SetHookChainArg h amx params st =
        (FALSE, st\<lparr>error_log := error_log st @
           [(amx, AMX_ERR_NATIVE,
             Msg_cant_set_argument ''SetHookChainArg'' (params 1) (args_count ctx))]\<rparr>)"
    using number_out_of_range_iff [of "args_count ctx" "params 1"]
    by (simp add: SetHookChainArg_def MF_LogError_def Let_def)
  have tag: "g_hookCtx st = Some ctx \<and> unat (params 1) \<in> {1..unat (args_count ctx)} \<and>
    params 2 \<noteq> args_type ctx (unat (params 1) - 1) \<longrightarrow>
      SetHookChainArg h amx params st =
        (FALSE, st\<lparr>error_log := error_log st @
           [(amx, AMX_ERR_NATIVE, Msg_invalid_argument_type ''SetHookChainArg'')]\<rparr>)"
  proof
    assume a: "g_hookCtx st = Some ctx \<and> unat (params 1) \<in> {1..unat (args_count ctx)} \<and>
      params 2 \<noteq> args_type ctx (unat (params 1) - 1)"
    then have "\<not> args_count ctx \<le> params 1 - 1"
      using number_out_of_range_iff [of "args_count ctx" "params 1"] by simp
    moreover from a have "unat (params 1 - 1) = unat (params 1) - 1"
      using number_index by blast
    ultimately show "SetHookChainArg h amx params st =
        (FALSE, st\<lparr>error_log := error_log st @
           [(amx, AMX_ERR_NATIVE, Msg_invalid_argument_type ''SetHookChainArg'')]\<rparr>)"
      using a by (simp add: SetHookChainArg_def MF_LogError_def Let_def)
  qed
  have frame: "fst (SetHookChainArg h amx params st) \<noteq> TRUE \<longrightarrow>
      fst (SetHookChainArg h amx params st) = FALSE \<and>
      mem (snd (SetHookChainArg h amx params st)) = mem st \<and>
      cstr (snd (SetHookChainArg h amx params st)) = cstr st \<and>
      g_hookCtx (snd (SetHookChainArg h amx params st)) = g_hookCtx st"
    by (auto simp: SetHookChainArg_def MF_LogError_def Let_def get_temp_string_def
        split: option.splits if_splits)
  from idle range tag frame show ?thesis by blast
qed

theorem SetHookChainArg_failure_paths_witness:
  "g_hookCtx st_idle = None \<and>
   SetHookChainArg host0 0 (params_of [12, 1, ATYPE_INTEGER, 100]) st_idle =
     (FALSE, st_idle\<lparr>error_log := error_log st_idle @
        [(0, AMX_ERR_NATIVE, Msg_get_return_without_hook ''SetHookChainArg'')]\<rparr>) \<and>
   g_hookCtx st_active = Some ctx0 \<and>
   unat (params_of [12, 0, ATYPE_INTEGER, 100] 1) \<notin> {1..unat (args_count ctx0)} \<and>
   SetHookChainArg host0 0 (params_of [12, 0, ATYPE_INTEGER, 100]) st_active =
     (FALSE, st_active\<lparr>error_log := error_log st_active @
        [(0, AMX_ERR_NATIVE,
          Msg_cant_set_argument ''SetHookChainArg'' (params_of [12, 0, ATYPE_INTEGER, 100] 1)
            (args_count ctx0))]\<rparr>) \<and>
   unat (params_of [12, 1, ATYPE_FLOAT, 100] 1) \<in> {1..unat (args_count ctx0)} \<and>
   params_of [12, 1, ATYPE_FLOAT, 100] 2 \<noteq>
     args_type ctx0 (unat (params_of [12, 1, ATYPE_FLOAT, 100] 1) - 1) \<and>
   SetHookChainArg host0 0 (params_of [12, 1, ATYPE_FLOAT, 100]) st_active =
     (FALSE, st_active\<lparr>error_log := error_log st_active @
        [(0, AMX_ERR_NATIVE, Msg_invalid_argument_type ''SetHookChainArg'')]\<rparr>) \<and>
   mem (snd (SetHookChainArg host0 0 (params_of [12, 1, ATYPE_FLOAT, 100]) st_active)) =
     mem st_active"
proof -
  have idle: "g_hookCtx st_idle = None"
    by (simp add: st_idle_def)
  have active: "g_hookCtx st_active = Some ctx0"
    by (simp add: st_active_def)
  have zero: "unat (params_of [12, 0, ATYPE_INTEGER, 100] 1) \<notin> {1..unat (args_count ctx0)}"
    by (simp add: params_of_def)
  have one: "unat (params_of [12, 1, ATYPE_FLOAT, 100] 1) \<in> {1..unat (args_count ctx0)}"
    by (simp add: params_of_def ctx0_def)
  have other: "params_of [12, 1, ATYPE_FLOAT, 100] 2 \<noteq>
     args_type ctx0 (unat (params_of [12, 1, ATYPE_FLOAT, 100] 1) - 1)"
    by (simp add: params_of_def ctx0_def ATYPE_FLOAT_def ATYPE_INTEGER_def)
  note a = SetHookChainArg_failure_paths [of st_idle host0 0 "params_of [12, 1, ATYPE_INTEGER, 100]" ctx0]
  note b = SetHookChainArg_failure_paths [of st_active host0 0 "params_of [12, 0, ATYPE_INTEGER, 100]" ctx0]
  note c = SetHookChainArg_failure_paths [of st_active host0 0 "params_of [12, 1, ATYPE_FLOAT, 100]" ctx0]
  have failed: "fst (SetHookChainArg host0 0 (params_of [12, 1, ATYPE_FLOAT, 100]) st_active) \<noteq> TRUE"
    using c active one other by (simp add: TRUE_def FALSE_def)
  show ?thesis
    using a b c idle active zero one other failed by blast
qed

text \<open>
  Claim C6 says, as the comment above SetHookChainArg does (\<^verbatim>\<open>This has no effect in
  post hookchain\<close>), that a call in the post phase succeeds without touching the argument
  block. The native has no test of the phase: called in the post phase of an invocation
  with a valid number and the matching tag, it returns TRUE, reports nothing, and writes
  the slot of the argument block (address 4096 goes from 3 to 7).
\<close>

theorem SetHookChainArg_post_phase_writes:
  "g_hookCtx st_post = Some (ctx0\<lparr>phase := PostPhase\<rparr>) \<and>
   phase (ctx0\<lparr>phase := PostPhase\<rparr>) = PostPhase \<and>
   unat (params_of [12, 1, ATYPE_INTEGER, 100] 1) \<in> {1..unat (args_count ctx0)} \<and>
   params_of [12, 1, ATYPE_INTEGER, 100] 2 = args_type ctx0 0 \<and>
   fst (SetHookChainArg host0 0 (params_of [12, 1, ATYPE_INTEGER, 100]) st_post) = TRUE \<and>
   error_log (snd (SetHookChainArg host0 0 (params_of [12, 1, ATYPE_INTEGER, 100]) st_post)) = [] \<and>
   mem st_post 4096 = 3 \<and>
   mem (snd (SetHookChainArg host0 0 (params_of [12, 1, ATYPE_INTEGER, 100]) st_post)) 4096 = 7"
  by (simp add: SetHookChainArg_def st_post_def st_idle_def ctx0_def params_of_def Let_def
      deref_amx_def amx0_def ATYPE_INTEGER_def word_le_nat_alt)

text \<open>
  What the native does for a valid number (1, ..., args_count) and the matching tag: it
  returns TRUE and reports no error, and for each of the six tags it writes the slot
  \<open>args_ptr + (number - 1) * 4\<close> of the live argument block: the word read from the
  script for INTEGER and FLOAT, the scratch buffer holding the copied text for STRING,
  the resolved reference for the three handle tags. The memory after the call is the
  same whatever the phase of the context.
\<close>

lemma SetHookChainArg_writes_in_either_phase:
  assumes "g_hookCtx st = Some ctx"
    and "unat (params 1) \<in> {1..unat (args_count ctx)}"
    and "params 2 = args_type ctx (unat (params 1) - 1)"
  shows "fst (SetHookChainArg h amx params st) = TRUE \<and>
    error_log (snd (SetHookChainArg h amx params st)) = error_log st \<and>
    (params 2 = ATYPE_INTEGER \<or> params 2 = ATYPE_FLOAT \<longrightarrow>
       mem (snd (SetHookChainArg h amx params st)) =
         (mem st)(args_ptr ctx + (params 1 - 1) * 4 := deref_amx st amx (params 3))) \<and>
    (params 2 = ATYPE_STRING \<longrightarrow>
       mem (snd (SetHookChainArg h amx params st)) =
         (mem st)(args_ptr ctx + (params 1 - 1) * 4 := arena_buffer h (temp_strings ctx)) \<and>
       cstr (snd (SetHookChainArg h amx params st)) =
         (cstr st)(arena_buffer h (temp_strings ctx) :=
            getAmxStringTemp h (data (amx_store st amx)) (params 3) (STRING_LEN h))) \<and>
    (params 2 = ATYPE_CLASSPTR \<longrightarrow>
       mem (snd (SetHookChainArg h amx params st)) =
         (mem st)(args_ptr ctx + (params 1 - 1) * 4 :=
            getPrivate h (deref_amx st amx (params 3)))) \<and>
    (params 2 = ATYPE_EDICT \<longrightarrow>
       mem (snd (SetHookChainArg h amx params st)) =
         (mem st)(args_ptr ctx + (params 1 - 1) * 4 :=
            edictByIndexAmx h (deref_amx st amx (params 3)))) \<and>
    (params 2 = ATYPE_EVARS \<longrightarrow>
       mem (snd (SetHookChainArg h amx params st)) =
         (mem st)(args_ptr ctx + (params 1 - 1) * 4 := PEV h (deref_amx st amx (params 3)))) \<and>
    fst (SetHookChainArg h amx params (st\<lparr>g_hookCtx := Some (ctx\<lparr>phase := ph\<rparr>)\<rparr>)) = TRUE \<and>
    error_log (snd (SetHookChainArg h amx params (st\<lparr>g_hookCtx := Some (ctx\<lparr>phase := ph\<rparr>)\<rparr>))) =
      error_log st \<and>
    mem (snd (SetHookChainArg h amx params (st\<lparr>g_hookCtx := Some (ctx\<lparr>phase := ph\<rparr>)\<rparr>))) =
      mem (snd (SetHookChainArg h amx params st))"
proof -
  have inside: "\<not> args_count ctx \<le> params 1 - 1"
    using assms(2) number_out_of_range_iff [of "args_count ctx" "params 1"] by simp
  have idx: "unat (params 1 - 1) = unat (params 1) - 1"
    using assms(2) number_index by blast
  show ?thesis
    using assms(1,3) inside idx
    by (simp add: SetHookChainArg_def Let_def get_temp_string_def deref_amx_def
        ATYPE_INTEGER_def ATYPE_FLOAT_def ATYPE_STRING_def ATYPE_CLASSPTR_def ATYPE_EDICT_def
        ATYPE_EVARS_def)
qed

subsection \<open>Reading the return cell\<close>

text \<open>
  Claim C5. GetHookChainReturn fails with a reported error (FALSE, and the state it got
  plus one entry in the error log) when no invocation is active and when the return cell
  is unset. For a set STRING cell it fails as well when \<^verbatim>\<open>PARAMS_COUNT\<close> is not 2,
  which covers every call that passes no buffer length: it returns FALSE and leaves the
  state, the script's buffer and the error log included, as it was.
\<close>

theorem GetHookChainReturn_failure_paths:
  "(g_hookCtx st = None \<longrightarrow>
      GetHookChainReturn h amx params st =
        Some (FALSE, st\<lparr>error_log := error_log st @
           [(amx, AMX_ERR_NATIVE, Msg_get_return_without_hook ''GetHookChainReturn'')]\<rparr>)) \<and>
   (g_hookCtx st = Some ctx \<and> \<not> set' (retVal ctx) \<longrightarrow>
      GetHookChainReturn h amx params st =
        Some (FALSE, st\<lparr>error_log := error_log st @
           [(amx, AMX_ERR_NATIVE, Msg_return_isnt_set ''GetHookChainReturn'')]\<rparr>)) \<and>
   (g_hookCtx st = Some ctx \<and> set' (retVal ctx) \<and> type' (retVal ctx) = ATYPE_STRING \<and>
    PARAMS_COUNT h params \<noteq> 2 \<longrightarrow>
      GetHookChainReturn h amx params st = Some (FALSE, st))"
  by (simp add: GetHookChainReturn_def MF_LogError_def Let_def ATYPE_INTEGER_def ATYPE_FLOAT_def
      ATYPE_STRING_def)

theorem GetHookChainReturn_failure_paths_witness:
  "g_hookCtx st_idle = None \<and>
   GetHookChainReturn host0 0 (params_of [0]) st_idle =
     Some (FALSE, st_idle\<lparr>error_log := error_log st_idle @
        [(0, AMX_ERR_NATIVE, Msg_get_return_without_hook ''GetHookChainReturn'')]\<rparr>) \<and>
   g_hookCtx st_active = Some ctx0 \<and>
   \<not> set' (retVal ctx0) \<and>
   GetHookChainReturn host0 0 (params_of [0]) st_active =
     Some (FALSE, st_active\<lparr>error_log := error_log st_active @
        [(0, AMX_ERR_NATIVE, Msg_return_isnt_set ''GetHookChainReturn'')]\<rparr>) \<and>
   g_hookCtx (st_ret ATYPE_STRING 16) =
     Some (ctx0\<lparr>retVal := \<lparr>set' = True, type' = ATYPE_STRING, raw = 16\<rparr>\<rparr>) \<and>
   PARAMS_COUNT host0 (params_of [4, 500]) = 1 \<and>
   GetHookChainReturn host0 0 (params_of [4, 500]) (st_ret ATYPE_STRING 16) =
     Some (FALSE, st_ret ATYPE_STRING 16)"
proof -
  have idle: "g_hookCtx st_idle = None"
    by (simp add: st_idle_def)
  have active: "g_hookCtx st_active = Some ctx0"
    by (simp add: st_active_def)
  have unset: "\<not> set' (retVal ctx0)"
    by (simp add: ctx0_def)
  have str: "g_hookCtx (st_ret ATYPE_STRING 16) =
     Some (ctx0\<lparr>retVal := \<lparr>set' = True, type' = ATYPE_STRING, raw = 16\<rparr>\<rparr>)"
    by (simp add: st_ret_def)
  have cell: "set' (retVal (ctx0\<lparr>retVal := \<lparr>set' = True, type' = ATYPE_STRING, raw = 16\<rparr>\<rparr>)) \<and>
      type' (retVal (ctx0\<lparr>retVal := \<lparr>set' = True, type' = ATYPE_STRING, raw = 16\<rparr>\<rparr>)) = ATYPE_STRING"
    by simp
  have count: "PARAMS_COUNT host0 (params_of [4, 500]) = 1"
    by (simp add: host0_def params_of_def)
  then have short: "PARAMS_COUNT host0 (params_of [4, 500]) \<noteq> 2"
    by simp
  show ?thesis
    using GetHookChainReturn_failure_paths [of st_idle host0 0 "params_of [0]" ctx0]
      GetHookChainReturn_failure_paths [of st_active host0 0 "params_of [0]" ctx0]
      GetHookChainReturn_failure_paths [of "st_ret ATYPE_STRING 16" host0 0 "params_of [4, 500]"
           "ctx0\<lparr>retVal := \<lparr>set' = True, type' = ATYPE_STRING, raw = 16\<rparr>\<rparr>"]
      idle active unset str cell count short
    by blast
qed

text \<open>
  What a call of GetHookChainReturn on a set cell gives, tag by tag: the stored word for
  INTEGER and FLOAT; the index of the stored reference for EDICT and EVARS, and for
  CLASSPTR when the stored pointer is not null; the text copied into the script's buffer
  and TRUE for STRING with two parameters. A stored word or an index equal to 0 gives
  what a failing call gives, FALSE. With a null CLASSPTR pointer the native does not
  return.
\<close>

lemma GetHookChainReturn_channel:
  "(g_hookCtx st = None \<or> (\<exists>c. g_hookCtx st = Some c \<and> \<not> set' (retVal c)) \<longrightarrow>
      map_option fst (GetHookChainReturn h amx params st) = Some FALSE) \<and>
   (g_hookCtx st = Some ctx \<and> set' (retVal ctx) \<longrightarrow>
      (type' (retVal ctx) = ATYPE_INTEGER \<or> type' (retVal ctx) = ATYPE_FLOAT \<longrightarrow>
         GetHookChainReturn h amx params st = Some (raw (retVal ctx), st)) \<and>
      (type' (retVal ctx) = ATYPE_CLASSPTR \<and> raw (retVal ctx) \<noteq> nullptr \<longrightarrow>
         GetHookChainReturn h amx params st =
           Some (indexOfEdict_pev h (classptr_pev h (raw (retVal ctx))), st)) \<and>
      (type' (retVal ctx) = ATYPE_CLASSPTR \<and> raw (retVal ctx) = nullptr \<longrightarrow>
         GetHookChainReturn h amx params st = None) \<and>
      (type' (retVal ctx) = ATYPE_EDICT \<longrightarrow>
         GetHookChainReturn h amx params st = Some (indexOfEdict h (raw (retVal ctx)), st)) \<and>
      (type' (retVal ctx) = ATYPE_EVARS \<longrightarrow>
         GetHookChainReturn h amx params st = Some (indexOfEdict_pev h (raw (retVal ctx)), st)) \<and>
      (type' (retVal ctx) = ATYPE_STRING \<and> PARAMS_COUNT h params = 2 \<longrightarrow>
         GetHookChainReturn h amx params st =
           Some (TRUE, st\<lparr>amx_store := (amx_store st)(amx := (amx_store st amx)\<lparr>data :=
              setAmxString h (data (amx_store st amx)) (params 1) (cstr st (raw (retVal ctx)))
                (params 2)\<rparr>)\<rparr>))) \<and>
   FALSE = 0 \<and> TRUE \<noteq> FALSE"
  by (auto simp: GetHookChainReturn_def MF_LogError_def Let_def ATYPE_INTEGER_def ATYPE_FLOAT_def
      ATYPE_STRING_def ATYPE_CLASSPTR_def ATYPE_EDICT_def ATYPE_EVARS_def TRUE_def FALSE_def)

text \<open>
  Claim C9 says that for the three handle tags the index of the stored reference is the
  native's return value. For CLASSPTR the code misses the null pointer.
  SetHookChainReturn stores whatever \<^verbatim>\<open>getPrivate\<close> resolves, with no test; on a host
  where entity 7 has no private data, setting the CLASSPTR return to entity 7 (the word
  at AMX address 100) returns TRUE and leaves a set cell holding the null pointer.
  GetHookChainReturn then evaluates \<^verbatim>\<open>retVal._classptr->pev\<close> on it: the call does
  not return an index, or anything.
\<close>

theorem GetHookChainReturn_null_classptr:
  "g_hookCtx st_cls = Some ctx_cls \<and>
   deref_amx st_cls 0 (params_of [8, ATYPE_CLASSPTR, 100] 2) = 7 \<and>
   getPrivate host_np 7 = nullptr \<and>
   SetHookChainReturn host_np 0 (params_of [8, ATYPE_CLASSPTR, 100]) st_cls =
     (TRUE, st_cls\<lparr>g_hookCtx := Some (ctx_cls\<lparr>retVal :=
        \<lparr>set' = True, type' = ATYPE_CLASSPTR, raw = nullptr\<rparr>\<rparr>)\<rparr>) \<and>
   GetHookChainReturn host_np 0 (params_of [0])
     (snd (SetHookChainReturn host_np 0 (params_of [8, ATYPE_CLASSPTR, 100]) st_cls)) = None"
proof -
  have active: "g_hookCtx st_cls = Some ctx_cls"
    by (simp add: st_cls_def)
  have word: "deref_amx st_cls 0 (params_of [8, ATYPE_CLASSPTR, 100] 2) = 7"
    by (simp add: deref_amx_def st_cls_def st_idle_def amx0_def params_of_def)
  have null: "getPrivate host_np 7 = nullptr"
    by (simp add: host_np_def)
  have stored: "SetHookChainReturn host_np 0 (params_of [8, ATYPE_CLASSPTR, 100]) st_cls =
     (TRUE, st_cls\<lparr>g_hookCtx := Some (ctx_cls\<lparr>retVal :=
        \<lparr>set' = True, type' = ATYPE_CLASSPTR, raw = nullptr\<rparr>\<rparr>)\<rparr>)"
    using word null
    by (simp add: SetHookChainReturn_def SetHookChainReturn_switch_def Let_def active
        ctx_cls_def params_of_def ATYPE_INTEGER_def ATYPE_FLOAT_def ATYPE_STRING_def
        ATYPE_CLASSPTR_def)
  have faults: "GetHookChainReturn host_np 0 (params_of [0])
     (snd (SetHookChainReturn host_np 0 (params_of [8, ATYPE_CLASSPTR, 100]) st_cls)) = None"
    unfolding stored
    by (simp add: GetHookChainReturn_def Let_def ATYPE_INTEGER_def ATYPE_FLOAT_def
        ATYPE_STRING_def ATYPE_CLASSPTR_def)
  from active word null stored faults show ?thesis
    by blast
qed

subsection \<open>The string of the return cell\<close>

text \<open>
  One STRING-tagged call: the array the cell owned is deleted, a new array is allocated
  among the arrays that remain, the text read from the script is copied into it, and the
  cell points at it and is marked set.
\<close>

lemma SetHookChainReturn_string_step:
  assumes "g_hookCtx st = Some ctx"
    and "type' (retVal ctx) = ATYPE_STRING"
    and "p 1 = ATYPE_STRING"
  shows "SetHookChainReturn h amx p st =
    (TRUE,
     st\<lparr>allocated :=
          insert (operator_new h (allocated st - owned_string (retVal ctx)))
            (allocated st - owned_string (retVal ctx)),
        cstr := (cstr st)(operator_new h (allocated st - owned_string (retVal ctx)) :=
          getAmxString h (data (amx_store st amx)) (p 2)),
        g_hookCtx := Some (ctx\<lparr>retVal := (retVal ctx)
          \<lparr>raw := operator_new h (allocated st - owned_string (retVal ctx)),
           set' := True\<rparr>\<rparr>)\<rparr>)"
  using assms
  by (simp add: SetHookChainReturn_def SetHookChainReturn_switch_def Let_def owned_string_def
      ATYPE_INTEGER_def ATYPE_FLOAT_def ATYPE_STRING_def)

text \<open>
  Claim C8. After any non-empty sequence of successful STRING-tagged calls of
  SetHookChainReturn in one invocation, the cell is set and points at a live array that
  holds the text of the last call, and the live arrays other than that one are exactly
  the arrays that were live before the first call other than the one the cell owned
  then. So every array a call allocated has been released by the next call, whatever
  the length of the sequence, and the text of the cell lives in an array of its own,
  not in the script's data section.
\<close>

theorem SetHookChainReturn_string_never_leaks:
  assumes "g_hookCtx st = Some ctx"
    and "type' (retVal ctx) = ATYPE_STRING"
    and "ps \<noteq> []"
    and "string_sets_succeed h amx ps st"
  shows "\<exists>ctx'. g_hookCtx (SetHookChainReturn_seq h amx ps st) = Some ctx' \<and>
      type' (retVal ctx') = ATYPE_STRING \<and>
      set' (retVal ctx') \<and>
      raw (retVal ctx') \<noteq> nullptr \<and>
      raw (retVal ctx') \<in> allocated (SetHookChainReturn_seq h amx ps st) \<and>
      allocated (SetHookChainReturn_seq h amx ps st) - {raw (retVal ctx')} =
        allocated st - owned_string (retVal ctx) \<and>
      cstr (SetHookChainReturn_seq h amx ps st) (raw (retVal ctx')) =
        getAmxString h (data (amx_store st amx)) (last ps 2)"
  using assms
proof (induction ps arbitrary: st ctx)
  case Nil
  then show ?case by simp
next
  case (Cons p ps)
  let ?a = "operator_new h (allocated st - owned_string (retVal ctx))"
  let ?st1 = "snd (SetHookChainReturn h amx p st)"
  let ?ctx1 = "ctx\<lparr>retVal := (retVal ctx)\<lparr>raw := ?a, set' := True\<rparr>\<rparr>"
  from Cons.prems have tag: "p 1 = ATYPE_STRING" and fresh: "new_returns_fresh h st"
    and rest: "string_sets_succeed h amx ps ?st1"
    by simp_all
  from fresh Cons.prems(1) have a: "?a \<noteq> nullptr" "?a \<notin> allocated st - owned_string (retVal ctx)"
    by (simp_all add: new_returns_fresh_def)
  note step = SetHookChainReturn_string_step
      [where p = p and h = h and amx = amx, OF Cons.prems(1,2) tag]
  have ctx1: "g_hookCtx ?st1 = Some ?ctx1"
    by (simp add: step)
  have tag1: "type' (retVal ?ctx1) = ATYPE_STRING"
    using Cons.prems(2) by simp
  have alloc1: "allocated ?st1 = insert ?a (allocated st - owned_string (retVal ctx))"
    by (simp add: step)
  have owned1: "owned_string (retVal ?ctx1) = {?a}"
    using a(1) by (simp add: owned_string_def)
  have others1: "allocated ?st1 - owned_string (retVal ?ctx1) =
      allocated st - owned_string (retVal ctx)"
  proof -
    have "allocated ?st1 - owned_string (retVal ?ctx1) =
        insert ?a (allocated st - owned_string (retVal ctx)) - {?a}"
      by (simp only: alloc1 owned1)
    also have "\<dots> = allocated st - owned_string (retVal ctx)"
      using a(2) by simp
    finally show ?thesis .
  qed
  have store1: "amx_store ?st1 = amx_store st"
    by (simp add: step)
  show ?case
  proof (cases "ps = []")
    case True
    have "cstr ?st1 ?a = getAmxString h (data (amx_store st amx)) (p 2)"
      by (simp add: step)
    with True ctx1 tag1 a(1) alloc1 others1 owned1 show ?thesis
      by simp
  next
    case False
    from Cons.IH [OF ctx1 tag1 False rest] others1 store1 False show ?thesis
      by simp
  qed
qed

theorem SetHookChainReturn_string_never_leaks_witness:
  "g_hookCtx st_str = Some ctx_str \<and>
   type' (retVal ctx_str) = ATYPE_STRING \<and>
   string_sets_succeed host0 0
     [params_of [8, ATYPE_STRING, 200], params_of [8, ATYPE_STRING, 300]] st_str \<and>
   allocated st_str - owned_string (retVal ctx_str) = {16} \<and>
   getAmxString host0 (data (amx_store st_str 0))
     (last [params_of [8, ATYPE_STRING, 200], params_of [8, ATYPE_STRING, 300]] 2) = ''hello'' \<and>
   (\<exists>ctx'. g_hookCtx (SetHookChainReturn_seq host0 0
                 [params_of [8, ATYPE_STRING, 200], params_of [8, ATYPE_STRING, 300]] st_str) =
              Some ctx' \<and>
      set' (retVal ctx') \<and>
      raw (retVal ctx') \<noteq> nullptr \<and>
      raw (retVal ctx') \<in> allocated (SetHookChainReturn_seq host0 0
                 [params_of [8, ATYPE_STRING, 200], params_of [8, ATYPE_STRING, 300]] st_str) \<and>
      allocated (SetHookChainReturn_seq host0 0
                 [params_of [8, ATYPE_STRING, 200], params_of [8, ATYPE_STRING, 300]] st_str) -
        {raw (retVal ctx')} = {16} \<and>
      cstr (SetHookChainReturn_seq host0 0
                 [params_of [8, ATYPE_STRING, 200], params_of [8, ATYPE_STRING, 300]] st_str)
        (raw (retVal ctx')) = ''hello'')"
proof -
  let ?ps = "[params_of [8, ATYPE_STRING, 200], params_of [8, ATYPE_STRING, 300]]"
  have active: "g_hookCtx st_str = Some ctx_str"
    by (simp add: st_str_def)
  have tag: "type' (retVal ctx_str) = ATYPE_STRING"
    by (simp add: ctx_str_def)
  have tags: "params_of [8, ATYPE_STRING, 200] 1 = ATYPE_STRING"
    "params_of [8, ATYPE_STRING, 300] 1 = ATYPE_STRING"
    by (simp_all add: params_of_def)
  have succ: "string_sets_succeed host0 0 ?ps st_str"
    by (simp add: new_returns_fresh_def SetHookChainReturn_def SetHookChainReturn_switch_def
        Let_def owned_string_def ctx_str_def st_str_def st_idle_def ctx0_def host0_def
        nullptr_def params_of_def amx0_def ATYPE_INTEGER_def ATYPE_FLOAT_def ATYPE_STRING_def
        TRUE_def)
  have others: "allocated st_str - owned_string (retVal ctx_str) = {16}"
    by (simp add: owned_string_def ctx_str_def st_str_def st_idle_def)
  have hello: "getAmxString host0 (data (amx_store st_str 0)) (last ?ps 2) = ''hello''"
    by (simp add: host0_def params_of_def)
  have some: "?ps \<noteq> []"
    by simp
  from SetHookChainReturn_string_never_leaks [where ps = ?ps and h = host0 and amx = 0, OF active tag some succ]
  show ?thesis
    unfolding others hello
    using active tag succ by blast
qed

subsection \<open>Enabling and disabling by handle\<close>

text \<open>
  Writing the state of the registration a handle names changes that registration's
  state and no other registration, place or chain.
\<close>

lemma registration_SetState:
  assumes "getAmxxHook h st x = Some loc"
  shows "registration (SetState loc s st) =
    (registration st)(loc := map_option (\<lambda>r. r\<lparr>m_state := s\<rparr>) (registration st loc))"
proof -
  obtain func is_post i where loc: "loc = (func, is_post, i)"
    by (cases loc) auto
  from assms loc obtain hook where hook: "g_hookManager st func = Some hook"
    and i: "i < length (handlers hook is_post)"
    by (auto simp: getAmxxHook_def split: if_splits option.splits)
  show ?thesis
  proof
    fix loc' :: "cell \<times> bool \<times> nat"
    obtain f q j where loc': "loc' = (f, q, j)"
      by (cases loc') auto
    show "registration (SetState loc s st) loc' =
      ((registration st)(loc := map_option (\<lambda>r. r\<lparr>m_state := s\<rparr>) (registration st loc))) loc'"
      using hook i
      by (cases is_post; cases q)
         (auto simp: loc loc' registration_def SetState_def handlers_def nth_list_update)
  qed
qed

lemma getAmxxHook_registered:
  "getAmxxHook h st x = Some loc \<Longrightarrow> registration st loc \<noteq> None"
  by (auto simp: getAmxxHook_def registration_def split: if_splits option.splits)

text \<open>
  Claim C7. A handle that names no registration makes EnableHookChain and
  DisableHookChain report an error and return FALSE, the state being the one they got
  plus the log entry, so no registration changes. A handle that names a registration
  makes them return TRUE without a report; afterwards that registration is still at its
  place with its state set to enabled, respectively stopped, and every other place of
  every chain holds what it held: nothing is removed, added or reordered.
\<close>

theorem EnableDisableHookChain_by_handle:
  "(getAmxxHook h st (params 1) = None \<longrightarrow>
      EnableHookChain h amx params st =
        (FALSE, st\<lparr>error_log := error_log st @
           [(amx, AMX_ERR_NATIVE, Msg_invalid_handle ''EnableHookChain'')]\<rparr>) \<and>
      DisableHookChain h amx params st =
        (FALSE, st\<lparr>error_log := error_log st @
           [(amx, AMX_ERR_NATIVE, Msg_invalid_handle ''DisableHookChain'')]\<rparr>)) \<and>
   (getAmxxHook h st (params 1) = Some loc \<longrightarrow>
      fst (EnableHookChain h amx params st) = TRUE \<and>
      fst (DisableHookChain h amx params st) = TRUE \<and>
      error_log (snd (EnableHookChain h amx params st)) = error_log st \<and>
      error_log (snd (DisableHookChain h amx params st)) = error_log st \<and>
      registration st loc \<noteq> None \<and>
      registration (snd (EnableHookChain h amx params st)) =
        (registration st)(loc :=
           map_option (\<lambda>r. r\<lparr>m_state := FSTATE_ENABLED\<rparr>) (registration st loc)) \<and>
      registration (snd (DisableHookChain h amx params st)) =
        (registration st)(loc :=
           map_option (\<lambda>r. r\<lparr>m_state := FSTATE_STOPPED\<rparr>) (registration st loc)))"
proof -
  have invalid: "getAmxxHook h st (params 1) = None \<longrightarrow>
      EnableHookChain h amx params st =
        (FALSE, st\<lparr>error_log := error_log st @
           [(amx, AMX_ERR_NATIVE, Msg_invalid_handle ''EnableHookChain'')]\<rparr>) \<and>
      DisableHookChain h amx params st =
        (FALSE, st\<lparr>error_log := error_log st @
           [(amx, AMX_ERR_NATIVE, Msg_invalid_handle ''DisableHookChain'')]\<rparr>)"
    by (simp add: EnableHookChain_def DisableHookChain_def MF_LogError_def)
  have valid: "fst (EnableHookChain h amx params st) = TRUE \<and>
      fst (DisableHookChain h amx params st) = TRUE \<and>
      error_log (snd (EnableHookChain h amx params st)) = error_log st \<and>
      error_log (snd (DisableHookChain h amx params st)) = error_log st \<and>
      registration st loc \<noteq> None \<and>
      registration (snd (EnableHookChain h amx params st)) =
        (registration st)(loc :=
           map_option (\<lambda>r. r\<lparr>m_state := FSTATE_ENABLED\<rparr>) (registration st loc)) \<and>
      registration (snd (DisableHookChain h amx params st)) =
        (registration st)(loc :=
           map_option (\<lambda>r. r\<lparr>m_state := FSTATE_STOPPED\<rparr>) (registration st loc))"
    if found: "getAmxxHook h st (params 1) = Some loc"
  proof -
    have log: "error_log (SetState loc s st) = error_log st" for s
      by (cases loc) (simp add: SetState_def split: option.splits)
    show ?thesis
      using found registration_SetState [OF found] getAmxxHook_registered [OF found] log
      by (simp add: EnableHookChain_def DisableHookChain_def)
  qed
  from invalid valid show ?thesis
    by blast
qed

theorem EnableDisableHookChain_by_handle_witness:
  "getAmxxHook host0 st_idle (params_of [4, 770] 1) = None \<and>
   EnableHookChain host0 0 (params_of [4, 770]) st_idle =
     (FALSE, st_idle\<lparr>error_log := error_log st_idle @
        [(0, AMX_ERR_NATIVE, Msg_invalid_handle ''EnableHookChain'')]\<rparr>) \<and>
   DisableHookChain host0 0 (params_of [4, 770]) st_idle =
     (FALSE, st_idle\<lparr>error_log := error_log st_idle @
        [(0, AMX_ERR_NATIVE, Msg_invalid_handle ''DisableHookChain'')]\<rparr>) \<and>
   getAmxxHook host0 st_idle (params_of [4, 769] 1) = Some (3, False, 0) \<and>
   registration st_idle (3, False, 0) = Some \<lparr>m_amx = 0, m_index = 4, m_state = FSTATE_ENABLED\<rparr> \<and>
   fst (DisableHookChain host0 0 (params_of [4, 769]) st_idle) = TRUE \<and>
   registration (snd (DisableHookChain host0 0 (params_of [4, 769]) st_idle)) (3, False, 0) =
     Some \<lparr>m_amx = 0, m_index = 4, m_state = FSTATE_STOPPED\<rparr> \<and>
   fst (EnableHookChain host0 0 (params_of [4, 769]) st_idle) = TRUE \<and>
   registration (snd (EnableHookChain host0 0 (params_of [4, 769]) st_idle)) (3, False, 0) =
     Some \<lparr>m_amx = 0, m_index = 4, m_state = FSTATE_ENABLED\<rparr>"
proof -
  have bad: "getAmxxHook host0 st_idle (params_of [4, 770] 1) = None"
    by (simp add: getAmxxHook_def host0_def st_idle_def hook0_def handlers_def params_of_def)
  have good: "getAmxxHook host0 st_idle (params_of [4, 769] 1) = Some (3, False, 0)"
    by (simp add: getAmxxHook_def host0_def st_idle_def hook0_def handlers_def params_of_def)
  have reg: "registration st_idle (3, False, 0) =
      Some \<lparr>m_amx = 0, m_index = 4, m_state = FSTATE_ENABLED\<rparr>"
    by (simp add: registration_def st_idle_def hook0_def handlers_def)
  note no = EnableDisableHookChain_by_handle [of host0 st_idle "params_of [4, 770]" 0 "(3, False, 0)"]
  note yes = EnableDisableHookChain_by_handle [of host0 st_idle "params_of [4, 769]" 0 "(3, False, 0)"]
  from yes good have dis: "registration (snd (DisableHookChain host0 0 (params_of [4, 769]) st_idle)) =
      (registration st_idle)((3, False, 0) :=
         map_option (\<lambda>r. r\<lparr>m_state := FSTATE_STOPPED\<rparr>) (registration st_idle (3, False, 0)))"
    and en: "registration (snd (EnableHookChain host0 0 (params_of [4, 769]) st_idle)) =
      (registration st_idle)((3, False, 0) :=
         map_option (\<lambda>r. r\<lparr>m_state := FSTATE_ENABLED\<rparr>) (registration st_idle (3, False, 0)))"
    by blast+
  have dis': "registration (snd (DisableHookChain host0 0 (params_of [4, 769]) st_idle)) (3, False, 0) =
     Some \<lparr>m_amx = 0, m_index = 4, m_state = FSTATE_STOPPED\<rparr>"
    by (simp add: dis reg)
  have en': "registration (snd (EnableHookChain host0 0 (params_of [4, 769]) st_idle)) (3, False, 0) =
     Some \<lparr>m_amx = 0, m_index = 4, m_state = FSTATE_ENABLED\<rparr>"
    by (simp add: en reg)
  from no yes bad good reg dis' en' show ?thesis
    by blast
qed

subsection \<open>Registration\<close>







subsection \<open>Registering the natives\<close>

text \<open>
  When neither ReHLDS nor ReGameDLL is available, the table handed to the module
  interface is the one \<^verbatim>\<open>fillNatives\<close> makes of it with the lambda; otherwise the
  table is registered as it stands. The lambda, on every module, parameters and state,
  reports the error and returns FALSE, leaving the rest of the state as it was. What
  \<^verbatim>\<open>fillNatives\<close> does to the entries is not in the file.
\<close>

lemma RegisterNatives_HookChains_without_components:
  "\<not> hasReHLDS (api_cfg st) \<Longrightarrow> \<not> hasReGameDLL (api_cfg st) \<Longrightarrow>
   RegisterNatives_HookChains h st =
     st\<lparr>HookChain_Natives := fillNatives h (HookChain_Natives st) Fn_lambda,
        amxx_natives := amxx_natives st @ fillNatives h (HookChain_Natives st) Fn_lambda\<rparr>"
  by (simp add: RegisterNatives_HookChains_def AddNatives_def)

lemma RegisterNatives_HookChains_with_component:
  "hasReHLDS (api_cfg st) \<or> hasReGameDLL (api_cfg st) \<Longrightarrow>
   RegisterNatives_HookChains h st = st\<lparr>amxx_natives := amxx_natives st @ HookChain_Natives st\<rparr>"
  by (auto simp: RegisterNatives_HookChains_def AddNatives_def)

lemma call_native_lambda:
  "call_native h Fn_lambda amx params st =
     Some (FALSE, st\<lparr>error_log := error_log st @
        [(amx, AMX_ERR_NATIVE, Msg_need_rehlds_or_regamedll)]\<rparr>)"
  by (simp add: MF_LogError_def)

end
